theory Spec2Isabelle
  imports Main "HOL-Library.Sublist"
begin

section \<open>Data model\<close>

text \<open>
  The program keeps orders as dictionaries with the keys \<open>order_id\<close>, \<open>customer\<close> and
  \<open>items\<close>; an item is a dictionary with the keys \<open>name\<close>, \<open>price\<close> and \<open>quantity\<close>.
  Both are records here. Prices and quantities are Python integers, hence unbounded.
  A string is a list of 8-bit characters: the model covers text whose code points are
  below 256.
\<close>

record item =
  name :: string
  price :: int
  quantity :: int

record order =
  order_id :: string
  customer :: string
  items :: "item list"

section \<open>Console and files\<close>

text \<open>
  Every text the program prints is a fixed sentence, possibly with an order id filled in.
  The sentences are not ASCII, so each is a constructor, named by what it says; the line of
  \<open>app.py\<close> that builds it is given on the right.
\<close>

datatype message =
    DuplicateId string      \<comment> \<open>line 56, with the order id\<close>
  | NeedItem                \<comment> \<open>line 80\<close>
  | Added string            \<comment> \<open>line 83, with the order id\<close>
  | NoPending               \<comment> \<open>line 88\<close>
  | Cancelled               \<comment> \<open>line 97\<close>
  | Fulfilled string        \<comment> \<open>line 103, with the order id\<close>
  | InvalidNumber           \<comment> \<open>lines 105 and 107, the same sentence\<close>
  | NegativePrice           \<comment> \<open>line 68\<close>
  | NonPositiveQuantity     \<comment> \<open>line 72\<close>
  | NotInteger              \<comment> \<open>line 76\<close>
  | NoOrders                \<comment> \<open>line 133\<close>
  | InvalidOption           \<comment> \<open>line 145\<close>

datatype prompt =
    AskOrderId              \<comment> \<open>line 54\<close>
  | AskCustomer             \<comment> \<open>line 58\<close>
  | AskItemName             \<comment> \<open>line 62\<close>
  | AskPrice                \<comment> \<open>line 66\<close>
  | AskQuantity             \<comment> \<open>line 70\<close>
  | AskSelection            \<comment> \<open>line 95\<close>
  | AskMenu                 \<comment> \<open>line 121\<close>

datatype title =
    OrderReport             \<comment> \<open>the default title of line 28\<close>
  | FulfilledOrder          \<comment> \<open>the title passed at line 141\<close>

datatype out =
    Prompt prompt
  | Msg message
  | Menu                                \<comment> \<open>the six lines 115 to 120\<close>
  | PendingHeader                       \<comment> \<open>line 90\<close>
  | PendingRow nat string string        \<comment> \<open>line 92: index, order id, customer\<close>
  | PendingFooter                       \<comment> \<open>line 93\<close>
  | ReportTitle title                   \<comment> \<open>line 30\<close>
  | ReportOrderNo nat                   \<comment> \<open>line 38\<close>
  | ReportOrderId string                \<comment> \<open>line 39\<close>
  | ReportCustomer string               \<comment> \<open>line 40\<close>
  | Rule                                \<comment> \<open>lines 41, 43 and 47\<close>
  | TableHeader                         \<comment> \<open>line 42\<close>
  | ItemRow string int int int          \<comment> \<open>line 46: name, price, quantity, subtotal\<close>
  | ReportTotal int                     \<comment> \<open>line 49; the digits are grouped when shown\<close>
  | ReportEnd                           \<comment> \<open>line 50\<close>

datatype error =
    EOFError                \<comment> \<open>\<open>input\<close> at the end of standard input\<close>
  | IndexError              \<comment> \<open>\<open>list.pop\<close> out of range\<close>
  | JSONDecodeError         \<comment> \<open>\<open>json.load\<close> on a text that is not JSON\<close>
  | NotOrders               \<comment> \<open>a JSON document that is no list of orders: outside the data model\<close>

text \<open>
  The world the program runs in: the files of the working directory (a file that exists
  has a text), the lines still to be read from standard input, and what has been written
  to standard output. A call returns its value or the exception it raises, together with
  the world it leaves behind.
\<close>

record world =
  files :: "string \<rightharpoonup> string"
  stdin :: "string list"
  stdout :: "out list"

definition print :: "out \<Rightarrow> world \<Rightarrow> world" where
  "print x w = w\<lparr>stdout := stdout w @ [x]\<rparr>"

definition input :: "prompt \<Rightarrow> world \<Rightarrow> (error + string) \<times> world" where
  "input p w =
     (case stdin w of
        [] \<Rightarrow> (Inl EOFError, print (Prompt p) w)
      | l # ls \<Rightarrow> (Inr l, print (Prompt p) (w\<lparr>stdin := ls\<rparr>)))"

section \<open>Built-in functions of the language\<close>

text \<open>
  \<open>str.upper\<close>, on the letters of ASCII; other characters are kept. Python also maps
  some of the characters from 128 to 255, a few of them to characters above 255 or to two
  letters, which a string of 8-bit characters cannot hold; for text outside ASCII the
  function below is therefore not Python's. The properties proved below use \<open>upper\<close> as a
  function only, and evaluate it on ASCII order ids.
\<close>

definition code_point :: "char \<Rightarrow> nat" where
  "code_point c = of_char c"

definition upper_char :: "char \<Rightarrow> char" where
  "upper_char c =
     (if 97 \<le> code_point c \<and> code_point c \<le> 122 then char_of (code_point c - 32) else c)"

definition upper :: "string \<Rightarrow> string" where
  "upper s = map upper_char s"

text \<open>
  The characters \<open>str.strip\<close> and \<open>int\<close> treat as white space, among the code points
  below 256: 9 to 13, 28 to 32, 133 and 160.
\<close>

definition is_space :: "char \<Rightarrow> bool" where
  "is_space c =
     (let n = code_point c
      in (9 \<le> n \<and> n \<le> 13) \<or> (28 \<le> n \<and> n \<le> 32) \<or> n = 133 \<or> n = 160)"

definition strip :: "string \<Rightarrow> string" where
  "strip s = rev (dropWhile is_space (rev (dropWhile is_space s)))"

definition is_digit :: "char \<Rightarrow> bool" where
  "is_digit c = (48 \<le> code_point c \<and> code_point c \<le> 57)"

definition digit_val :: "char \<Rightarrow> nat" where
  "digit_val c = code_point c - 48"

text \<open>
  \<open>int(s)\<close> in base ten: white space around the number is dropped, one sign may come
  first, then digits, where a single underscore may stand between two digits. Anything
  else raises ValueError, which is \<open>None\<close> here. The interpreter's configurable limit on
  the number of digits is not modelled.
\<close>

fun int_digits :: "nat \<Rightarrow> string \<Rightarrow> nat option" where
  "int_digits acc [] = Some acc"
| "int_digits acc (c # cs) =
     (if is_digit c then int_digits (10 * acc + digit_val c) cs
      else if c = CHR ''_'' then
        (case cs of
           [] \<Rightarrow> None
         | d # ds \<Rightarrow> if is_digit d then int_digits (10 * acc + digit_val d) ds else None)
      else None)"

definition int_body :: "string \<Rightarrow> nat option" where
  "int_body s =
     (case s of
        [] \<Rightarrow> None
      | c # cs \<Rightarrow> if is_digit c then int_digits (digit_val c) cs else None)"

definition py_int :: "string \<Rightarrow> int option" where
  "py_int s =
     (case strip s of
        [] \<Rightarrow> None
      | c # cs \<Rightarrow>
          if c = CHR ''-'' then map_option (\<lambda>n. - int n) (int_body cs)
          else if c = CHR ''+'' then map_option int (int_body cs)
          else map_option int (int_body (c # cs)))"

text \<open>
  \<open>list.pop(i)\<close>: a negative index counts from the end; an index out of range raises.
\<close>

definition pop :: "'a list \<Rightarrow> int \<Rightarrow> error + 'a \<times> 'a list" where
  "pop xs i =
     (let n = int (length xs); j = (if i < 0 then i + n else i)
      in if 0 \<le> j \<and> j < n
         then Inr (xs ! nat j, take (nat j) xs @ drop (Suc (nat j)) xs)
         else Inl IndexError)"

section \<open>The ledger\<close>

text \<open>
  \<open>calculate_order_total\<close> (lines 21 to 26): a loop over the items that adds price times
  quantity to a running total, which starts at 0.
\<close>

definition calculate_order_total :: "order \<Rightarrow> int" where
  "calculate_order_total order =
     fold (\<lambda>item total. total + price item * quantity item) (items order) 0"

text \<open>
  The loop of \<open>add_order\<close> (lines 61 to 77). Each round reads an item name; the empty
  name ends the loop. A price or a quantity that is no integer, a negative price and a
  quantity below 1 each print their sentence and start the next round, with nothing added.
\<close>

function read_items :: "item list \<Rightarrow> world \<Rightarrow> (error + item list) \<times> world" where
  "read_items its w =
     (case input AskItemName w of
        (Inl e, w1) \<Rightarrow> (Inl e, w1)
      | (Inr nm, w1) \<Rightarrow>
          if nm = [] then (Inr its, w1)
          else
            (case input AskPrice w1 of
               (Inl e, w2) \<Rightarrow> (Inl e, w2)
             | (Inr s, w2) \<Rightarrow>
                 (case py_int s of
                    None \<Rightarrow> read_items its (print (Msg NotInteger) w2)
                  | Some p \<Rightarrow>
                      if p < 0 then read_items its (print (Msg NegativePrice) w2)
                      else
                        (case input AskQuantity w2 of
                           (Inl e, w3) \<Rightarrow> (Inl e, w3)
                         | (Inr t, w3) \<Rightarrow>
                             (case py_int t of
                                None \<Rightarrow> read_items its (print (Msg NotInteger) w3)
                              | Some q \<Rightarrow>
                                  if q \<le> 0
                                  then read_items its (print (Msg NonPositiveQuantity) w3)
                                  else read_items
                                         (its @ [\<lparr>name = nm, price = p, quantity = q\<rparr>]) w3)))))"
  by pat_completeness auto
termination
proof (relation "measure (\<lambda>(its, w). length (stdin w))")
  have shorter: "length (stdin w') < length (stdin w)"
    if "input p w = (Inr l, w')" for p w l w'
    using that by (cases "stdin w") (auto simp: input_def print_def)
  have same: "length (stdin w') \<le> length (stdin w)"
    if "input p w = (Inr l, w')" for p w l w'
    using shorter [OF that] by simp
  show "wf (measure (\<lambda>(its, w). length (stdin w)))" by simp
  show "((its, print (Msg NotInteger) w2), its, w) \<in> measure (\<lambda>(its, w). length (stdin w))"
    if "(x, w1) = input AskItemName w" "x = Inr nm" "(y, w2) = input AskPrice w1" "y = Inr s"
    for its w x w1 nm y w2 s
    using shorter [of AskItemName w nm w1] same [of AskPrice w1 s w2] that
    by (simp add: print_def)
qed (auto simp: input_def print_def split: list.splits)

declare read_items.simps [simp del]

text \<open>
  \<open>add_order\<close> (lines 52 to 83). The order id read is put in upper case and compared
  with the stored id of every pending order. The list is changed at one place only, the
  \<open>append\<close> of line 82; the result here is the sentence returned and the list after the call.
\<close>

definition add_order :: "order list \<Rightarrow> world \<Rightarrow> (error + message \<times> order list) \<times> world" where
  "add_order orders w =
     (case input AskOrderId w of
        (Inl e, w1) \<Rightarrow> (Inl e, w1)
      | (Inr l, w1) \<Rightarrow>
          let oid = upper l in
          if list_ex (\<lambda>order. order_id order = oid) orders
          then (Inr (DuplicateId oid, orders), w1)
          else
            (case input AskCustomer w1 of
               (Inl e, w2) \<Rightarrow> (Inl e, w2)
             | (Inr c, w2) \<Rightarrow>
                 (case read_items [] w2 of
                    (Inl e, w3) \<Rightarrow> (Inl e, w3)
                  | (Inr its, w3) \<Rightarrow>
                      if its = [] then (Inr (NeedItem, orders), w3)
                      else (Inr (Added oid,
                                 orders @ [\<lparr>order_id = oid, customer = c, items = its\<rparr>]), w3))))"

text \<open>
  \<open>process_order\<close> (lines 85 to 107). The result is the sentence, the order taken out
  (\<open>None\<close> when there is none) and the list after the call. Only ValueError is caught, which
  is what \<open>int\<close> raises; the \<open>pop\<close> is behind the range test of line 101.
\<close>

definition pending_rows :: "order list \<Rightarrow> out list" where
  "pending_rows orders =
     map (\<lambda>(idx, order). PendingRow idx (order_id order) (customer order)) (enumerate 1 orders)"

definition process_order ::
  "order list \<Rightarrow> world \<Rightarrow> (error + message \<times> order option \<times> order list) \<times> world" where
  "process_order orders w =
     (if orders = [] then (Inr (NoPending, None, orders), w)
      else
        let w0 = w\<lparr>stdout := stdout w @ [PendingHeader] @ pending_rows orders @ [PendingFooter]\<rparr> in
        (case input AskSelection w0 of
           (Inl e, w1) \<Rightarrow> (Inl e, w1)
         | (Inr choice, w1) \<Rightarrow>
             if choice = [] then (Inr (Cancelled, None, orders), w1)
             else
               (case py_int choice of
                  None \<Rightarrow> (Inr (InvalidNumber, None, orders), w1)
                | Some n \<Rightarrow>
                    let idx = n - 1 in
                    if 0 \<le> idx \<and> idx < int (length orders) then
                      (case pop orders idx of
                         Inl e \<Rightarrow> (Inl e, w1)
                       | Inr (completed_order, rest) \<Rightarrow>
                           (Inr (Fulfilled (order_id completed_order), Some completed_order, rest),
                            w1))
                    else (Inr (InvalidNumber, None, orders), w1))))"

text \<open>
  \<open>print_order_report\<close> (lines 28 to 50). With \<open>single\<close> the caller passes one order, which
  line 32 wraps in a list; here the caller passes that list.
\<close>

definition report_order :: "bool \<Rightarrow> nat \<times> order \<Rightarrow> out list" where
  "report_order single p =
     (case p of (idx, order) \<Rightarrow>
        (if \<not> single then [ReportOrderNo idx] else []) @
        [ReportOrderId (order_id order), ReportCustomer (customer order), Rule, TableHeader, Rule] @
        map (\<lambda>item. ItemRow (name item) (price item) (quantity item) (price item * quantity item))
          (items order) @
        [Rule, ReportTotal (calculate_order_total order), ReportEnd])"

definition print_order_report :: "order list \<Rightarrow> title \<Rightarrow> bool \<Rightarrow> world \<Rightarrow> world" where
  "print_order_report orders t single w =
     w\<lparr>stdout := stdout w @ [ReportTitle t] @ concat (map (report_order single) (enumerate 1 orders))\<rparr>"

section \<open>The JSON documents\<close>

text \<open>
  \<open>json.dump(orders, file, indent=4, ensure_ascii=False)\<close> writes a list as an opening
  bracket, its elements each on a line of its own, indented by four spaces for each level
  and separated by commas, and the closing bracket on a line of its own; a dictionary
  likewise, in braces, each entry as the key, a colon, a space and the value. An empty list
  is \<open>[]\<close>. The keys come in the order in which lines 74 and 82 build the dictionaries.
\<close>

definition hex_digit :: "nat \<Rightarrow> char" where
  "hex_digit n = (if n < 10 then char_of (48 + n) else char_of (87 + n))"

text \<open>
  A string is written between double quotes. The quote and the backslash are escaped with a
  backslash; the control characters below 32 are written \<open>\b\<close>, \<open>\f\<close>, \<open>\n\<close>, \<open>\r\<close>, \<open>\t\<close> or,
  the others, as \<open>\u00\<close> and two hexadecimal digits. Every other character is written
  as it is.
\<close>

definition escape :: "char \<Rightarrow> string" where
  "escape c =
     (let n = code_point c in
      if n = 34 then [CHR 0x5C, CHR 0x22]
      else if n = 92 then [CHR 0x5C, CHR 0x5C]
      else if n = 8 then [CHR 0x5C, CHR ''b'']
      else if n = 12 then [CHR 0x5C, CHR ''f'']
      else if n = 10 then [CHR 0x5C, CHR ''n'']
      else if n = 13 then [CHR 0x5C, CHR ''r'']
      else if n = 9 then [CHR 0x5C, CHR ''t'']
      else if n < 32 then [CHR 0x5C, CHR ''u'', CHR ''0'', CHR ''0'', hex_digit (n div 16), hex_digit (n mod 16)]
      else [c])"

definition dumps_str :: "string \<Rightarrow> string" where
  "dumps_str s = [CHR 0x22] @ concat (map escape s) @ [CHR 0x22]"

fun digits :: "nat \<Rightarrow> string" where
  "digits n = (if n < 10 then [char_of (48 + n)] else digits (n div 10) @ [char_of (48 + n mod 10)])"

declare digits.simps [simp del]

definition dumps_int :: "int \<Rightarrow> string" where
  "dumps_int i = (if i < 0 then CHR ''-'' # digits (nat (- i)) else digits (nat i))"

definition newline_indent :: "nat \<Rightarrow> string" where
  "newline_indent level = CHR 0x0A # replicate (4 * level) CHR '' ''"

fun join :: "string \<Rightarrow> string list \<Rightarrow> string" where
  "join sep [] = []"
| "join sep [x] = x"
| "join sep (x # y # ys) = x @ sep @ join sep (y # ys)"

definition dumps_list :: "nat \<Rightarrow> string list \<Rightarrow> string" where
  "dumps_list level xs =
     (if xs = [] then ''[]''
      else ''['' @ newline_indent (level + 1) @ join ('','' @ newline_indent (level + 1)) xs @
           newline_indent level @ '']'')"

definition dumps_dict :: "nat \<Rightarrow> (string \<times> string) list \<Rightarrow> string" where
  "dumps_dict level kvs =
     (if kvs = [] then ''{}''
      else ''{'' @ newline_indent (level + 1) @
           join ('','' @ newline_indent (level + 1)) (map (\<lambda>(k, v). dumps_str k @ '': '' @ v) kvs) @
           newline_indent level @ ''}'')"

definition dumps_item :: "nat \<Rightarrow> item \<Rightarrow> string" where
  "dumps_item level item =
     dumps_dict level
       [(''name'', dumps_str (name item)),
        (''price'', dumps_int (price item)),
        (''quantity'', dumps_int (quantity item))]"

definition dumps_order :: "nat \<Rightarrow> order \<Rightarrow> string" where
  "dumps_order level order =
     dumps_dict level
       [(''order_id'', dumps_str (order_id order)),
        (''customer'', dumps_str (customer order)),
        (''items'', dumps_list (level + 1) (map (dumps_item (level + 2)) (items order)))]"

definition dumps :: "order list \<Rightarrow> string" where
  "dumps orders = dumps_list 0 (map (dumps_order 1) orders)"

text \<open>
  \<open>json.load\<close> reads any JSON document. A string of a document may name any code point
  through a \<open>\u\<close> escape, so the strings of a document are lists of code points. A number
  with a fraction or an exponent, \<open>NaN\<close> and the infinities are floats; the data model has
  none, and their value is not kept.
\<close>

datatype json =
    JNull
  | JBool bool
  | JInt int
  | JFloat
  | JStr "nat list"
  | JArr "json list"
  | JObj "(nat list \<times> json) list"

definition is_ws :: "char \<Rightarrow> bool" where
  "is_ws c = (c = CHR '' '' \<or> c = CHR 0x09 \<or> c = CHR 0x0A \<or> c = CHR 0x0D)"

definition skip_ws :: "string \<Rightarrow> string" where
  "skip_ws s = dropWhile is_ws s"

definition starts :: "string \<Rightarrow> string \<Rightarrow> bool" where
  "starts p s = (take (length p) s = p)"

definition hex_val :: "char \<Rightarrow> nat option" where
  "hex_val c =
     (let n = code_point c in
      if 48 \<le> n \<and> n \<le> 57 then Some (n - 48)
      else if 97 \<le> n \<and> n \<le> 102 then Some (n - 87)
      else if 65 \<le> n \<and> n \<le> 70 then Some (n - 55)
      else None)"

definition decode_uXXXX :: "string \<Rightarrow> nat option" where
  "decode_uXXXX s =
     (case map hex_val (take 4 s) of
        [Some a, Some b, Some c, Some d] \<Rightarrow> Some (((a * 16 + b) * 16 + c) * 16 + d)
      | _ \<Rightarrow> None)"

definition unescape :: "char \<Rightarrow> nat option" where
  "unescape c =
     (if c = CHR 0x22 then Some 34
      else if c = CHR 0x5C then Some 92
      else if c = CHR ''/'' then Some 47
      else if c = CHR ''b'' then Some 8
      else if c = CHR ''f'' then Some 12
      else if c = CHR ''n'' then Some 10
      else if c = CHR ''r'' then Some 13
      else if c = CHR ''t'' then Some 9
      else None)"

definition cons_code :: "nat \<Rightarrow> (nat list \<times> string) option \<Rightarrow> (nat list \<times> string) option" where
  "cons_code n r = map_option (\<lambda>(t, rest). (n # t, rest)) r"

text \<open>
  The string scanner, from behind the opening quote: the code points up to the closing
  quote and the text behind it. A control character, an unknown escape and the end of the
  text are errors. A high surrogate followed by the escape of a low one is one code point.
\<close>

fun scanstring :: "string \<Rightarrow> (nat list \<times> string) option" where
  "scanstring [] = None"
| "scanstring (c # cs) =
     (if c = CHR 0x22 then Some ([], cs)
      else if c = CHR 0x5C then
        (case cs of
           [] \<Rightarrow> None
         | e # es \<Rightarrow>
             if e = CHR ''u'' then
               (case decode_uXXXX es of
                  None \<Rightarrow> None
                | Some uni \<Rightarrow>
                    if 0xD800 \<le> uni \<and> uni \<le> 0xDBFF \<and> take 2 (drop 4 es) = [CHR 0x5C, CHR ''u''] then
                      (case decode_uXXXX (drop 6 es) of
                         None \<Rightarrow> None
                       | Some uni2 \<Rightarrow>
                           if 0xDC00 \<le> uni2 \<and> uni2 \<le> 0xDFFF
                           then cons_code (0x10000 + ((uni - 0xD800) * 1024 + (uni2 - 0xDC00)))
                                  (scanstring (drop 10 es))
                           else cons_code uni (scanstring (drop 4 es)))
                    else cons_code uni (scanstring (drop 4 es)))
             else
               (case unescape e of
                  None \<Rightarrow> None
                | Some n \<Rightarrow> cons_code n (scanstring es)))
      else if code_point c < 32 then None
      else cons_code (code_point c) (scanstring cs))"

definition nat_of_digits :: "string \<Rightarrow> nat" where
  "nat_of_digits ds = foldl (\<lambda>a c. 10 * a + digit_val c) 0 ds"

text \<open>
  The number scanner: a minus sign or none, then a single 0 or a digit from 1 to 9 with the
  digits that follow; then, if present, a point with digits, and an exponent. Without
  fraction and exponent the number is an integer.
\<close>

definition scan_fraction :: "string \<Rightarrow> bool \<times> string" where
  "scan_fraction r =
     (case r of
        p # d # ds \<Rightarrow>
          if p = CHR ''.'' \<and> is_digit d then (True, dropWhile is_digit ds) else (False, r)
      | _ \<Rightarrow> (False, r))"

definition scan_exponent :: "string \<Rightarrow> bool \<times> string" where
  "scan_exponent r =
     (case r of
        [] \<Rightarrow> (False, r)
      | e # es \<Rightarrow>
          if e = CHR ''e'' \<or> e = CHR ''E'' then
            (let ds = (case es of
                         [] \<Rightarrow> es
                       | g # gs \<Rightarrow> if g = CHR ''-'' \<or> g = CHR ''+'' then gs else es)
             in case ds of
                  [] \<Rightarrow> (False, r)
                | d # _ \<Rightarrow> if is_digit d then (True, dropWhile is_digit ds) else (False, r))
          else (False, r))"

definition scan_number :: "string \<Rightarrow> (json \<times> string) option" where
  "scan_number s =
     (let neg = starts ''-'' s;
          s1 = (if neg then tl s else s)
      in case s1 of
           [] \<Rightarrow> None
         | c # cs \<Rightarrow>
             if \<not> is_digit c then None
             else
               let ds = (if c = CHR ''0'' then [c] else takeWhile is_digit s1);
                   r = drop (length ds) s1;
                   (frac, r1) = scan_fraction r;
                   (ex, r2) = scan_exponent r1
               in if frac \<or> ex then Some (JFloat, r2)
                  else Some (JInt (if neg then - int (nat_of_digits ds) else int (nat_of_digits ds)), r2))"

text \<open>
  The scanner proper. \<open>ScanOnce\<close> reads one value at the start of the text. \<open>ArrayLoop\<close> is
  the loop that reads the elements of a list, with the elements read so far; it starts at
  an element. \<open>ObjectLoop\<close> is the loop that reads the entries of a dictionary, with the
  entries read so far; it starts behind the opening quote of a key. A result is the value
  and the text behind it.
\<close>

datatype scan_mode =
    ScanOnce
  | ArrayLoop "json list"
  | ObjectLoop "(nat list \<times> json) list"

function scan :: "scan_mode \<Rightarrow> string \<Rightarrow> (json \<times> string) option" where
  "scan ScanOnce s =
     (case s of
        [] \<Rightarrow> None
      | c # cs \<Rightarrow>
          if c = CHR 0x22 then
            (case scanstring cs of
               None \<Rightarrow> None
             | Some (t, r) \<Rightarrow> Some (JStr t, r))
          else if c = CHR ''{'' then
            (case skip_ws cs of
               [] \<Rightarrow> None
             | d # ds \<Rightarrow>
                 if d = CHR 0x22 then scan (ObjectLoop []) ds
                 else if d = CHR ''}'' then Some (JObj [], ds)
                 else None)
          else if c = CHR ''['' then
            (case skip_ws cs of
               [] \<Rightarrow> None
             | d # ds \<Rightarrow>
                 if d = CHR '']'' then Some (JArr [], ds)
                 else scan (ArrayLoop []) (d # ds))
          else if starts ''null'' s then Some (JNull, drop 4 s)
          else if starts ''true'' s then Some (JBool True, drop 4 s)
          else if starts ''false'' s then Some (JBool False, drop 5 s)
          else
            (case scan_number s of
               Some res \<Rightarrow> Some res
             | None \<Rightarrow>
                 if starts ''NaN'' s then Some (JFloat, drop 3 s)
                 else if starts ''Infinity'' s then Some (JFloat, drop 8 s)
                 else if starts ''-Infinity'' s then Some (JFloat, drop 9 s)
                 else None))"
| "scan (ArrayLoop values) s =
     (case scan ScanOnce s of
        None \<Rightarrow> None
      | Some (v, r) \<Rightarrow>
          (case skip_ws r of
             [] \<Rightarrow> None
           | c # r1 \<Rightarrow>
               if c = CHR '']'' then Some (JArr (values @ [v]), r1)
               else if c = CHR '','' then scan (ArrayLoop (values @ [v])) (skip_ws r1)
               else None))"
| "scan (ObjectLoop pairs) s =
     (case scanstring s of
        None \<Rightarrow> None
      | Some (key, r) \<Rightarrow>
          (case skip_ws r of
             [] \<Rightarrow> None
           | c # r1 \<Rightarrow>
               if c \<noteq> CHR '':'' then None
               else
                 (case scan ScanOnce (skip_ws r1) of
                    None \<Rightarrow> None
                  | Some (v, r2) \<Rightarrow>
                      (case skip_ws r2 of
                         [] \<Rightarrow> None
                       | d # r3 \<Rightarrow>
                           if d = CHR ''}'' then Some (JObj (pairs @ [(key, v)]), r3)
                           else if d = CHR '','' then
                             (case skip_ws r3 of
                                [] \<Rightarrow> None
                              | q # r4 \<Rightarrow>
                                  if q = CHR 0x22 then scan (ObjectLoop (pairs @ [(key, v)])) r4
                                  else None)
                           else None))))"
  by pat_completeness auto

text \<open>
  \<open>json.loads\<close>: white space, one value, white space, and the end of the text. \<open>None\<close> is
  the JSONDecodeError.
\<close>

definition loads :: "string \<Rightarrow> json option" where
  "loads s =
     (case scan ScanOnce (skip_ws s) of
        None \<Rightarrow> None
      | Some (v, r) \<Rightarrow> if skip_ws r = [] then Some v else None)"

text \<open>
  The program uses what it has loaded as a list of orders, without a check. The model has
  orders only, so a document is read as the data model sees it: a list of dictionaries with
  exactly the keys of an order, whose values have the types of an order. In a dictionary the
  last entry of a key is the one that counts. Every other document is outside the model.
\<close>

definition codes :: "string \<Rightarrow> nat list" where
  "codes s = map code_point s"

definition str_of :: "nat list \<Rightarrow> string option" where
  "str_of t = (if list_all (\<lambda>n. n < 256) t then Some (map char_of t) else None)"

definition dict_get :: "(nat list \<times> json) list \<Rightarrow> string \<Rightarrow> json option" where
  "dict_get pairs key = map_of (rev pairs) (codes key)"

definition has_keys :: "(nat list \<times> json) list \<Rightarrow> string list \<Rightarrow> bool" where
  "has_keys pairs keys = (set (map fst pairs) = set (map codes keys))"

definition item_of_json :: "json \<Rightarrow> item option" where
  "item_of_json j =
     (case j of
        JObj pairs \<Rightarrow>
          if has_keys pairs [''name'', ''price'', ''quantity''] then
            (case (dict_get pairs ''name'', dict_get pairs ''price'', dict_get pairs ''quantity'') of
               (Some (JStr n), Some (JInt p), Some (JInt q)) \<Rightarrow>
                 map_option (\<lambda>n'. \<lparr>name = n', price = p, quantity = q\<rparr>) (str_of n)
             | _ \<Rightarrow> None)
          else None
      | _ \<Rightarrow> None)"

definition order_of_json :: "json \<Rightarrow> order option" where
  "order_of_json j =
     (case j of
        JObj pairs \<Rightarrow>
          if has_keys pairs [''order_id'', ''customer'', ''items''] then
            (case (dict_get pairs ''order_id'', dict_get pairs ''customer'', dict_get pairs ''items'') of
               (Some (JStr i), Some (JStr c), Some (JArr js)) \<Rightarrow>
                 (case (str_of i, str_of c, those (map item_of_json js)) of
                    (Some i', Some c', Some its) \<Rightarrow>
                      Some \<lparr>order_id = i', customer = c', items = its\<rparr>
                  | _ \<Rightarrow> None)
             | _ \<Rightarrow> None)
          else None
      | _ \<Rightarrow> None)"

definition orders_of_json :: "json \<Rightarrow> order list option" where
  "orders_of_json j =
     (case j of
        JArr js \<Rightarrow> those (map order_of_json js)
      | _ \<Rightarrow> None)"



section \<open>The store\<close>

definition INPUT_FILE :: string where
  "INPUT_FILE = ''orders.json''"

definition OUTPUT_FILE :: string where
  "OUTPUT_FILE = ''output_orders.json''"

text \<open>
  \<open>load_data\<close> (lines 8 to 14): a file that does not exist gives the empty list; an error
  of \<open>json.load\<close> is not caught. A file either exists, with its text, or does not: the
  other failures of \<open>open\<close> (a directory, a missing permission) and a text that is no
  UTF-8 are not modelled.
\<close>

definition load_data :: "string \<Rightarrow> world \<Rightarrow> (error + order list) \<times> world" where
  "load_data filename w =
     (case files w filename of
        None \<Rightarrow> (Inr [], w)
      | Some text \<Rightarrow>
          (case loads text of
             None \<Rightarrow> (Inl JSONDecodeError, w)
           | Some j \<Rightarrow>
               (case orders_of_json j of
                  None \<Rightarrow> (Inl NotOrders, w)
                | Some orders \<Rightarrow> (Inr orders, w))))"

text \<open>
  \<open>save_orders\<close> (lines 16 to 19): the file is opened for writing, which replaces what
  it held, and the whole list is written.
\<close>

definition save_orders :: "string \<Rightarrow> order list \<Rightarrow> world \<Rightarrow> world" where
  "save_orders filename orders w = w\<lparr>files := (files w)(filename \<mapsto> dumps orders)\<rparr>"

section \<open>The menu loop\<close>

text \<open>
  One round of the loop of \<open>main\<close> (lines 115 to 145): the menu, the choice with the white
  space around it removed, and the branch taken. The result says whether the loop goes on,
  and gives the pending and the fulfilled orders after the round. The test of line 137 is
  true for every order, a dictionary with three keys, and false for \<open>None\<close>.
\<close>

datatype control = Break | Continue

definition main_iteration ::
  "order list \<Rightarrow> order list \<Rightarrow> world \<Rightarrow> (error + control \<times> order list \<times> order list) \<times> world" where
  "main_iteration orders output_orders w =
     (case input AskMenu (print Menu w) of
        (Inl e, w1) \<Rightarrow> (Inl e, w1)
      | (Inr l, w1) \<Rightarrow>
          let choice = strip l in
          if choice = [] then (Inr (Break, orders, output_orders), w1)
          else if choice = ''1'' then
            (case add_order orders w1 of
               (Inl e, w2) \<Rightarrow> (Inl e, w2)
             | (Inr (result, orders'), w2) \<Rightarrow>
                 (Inr (Continue, orders', output_orders),
                  save_orders INPUT_FILE orders' (print (Msg result) w2)))
          else if choice = ''2'' then
            (if orders \<noteq> []
             then (Inr (Continue, orders, output_orders), print_order_report orders OrderReport False w1)
             else (Inr (Continue, orders, output_orders), print (Msg NoOrders) w1))
          else if choice = ''3'' then
            (case process_order orders w1 of
               (Inl e, w2) \<Rightarrow> (Inl e, w2)
             | (Inr (result, completed_order, orders'), w2) \<Rightarrow>
                 (case completed_order of
                    None \<Rightarrow> (Inr (Continue, orders', output_orders), print (Msg result) w2)
                  | Some completed \<Rightarrow>
                      (Inr (Continue, orders', output_orders @ [completed]),
                       print_order_report [completed] FulfilledOrder True
                         (save_orders OUTPUT_FILE (output_orders @ [completed])
                            (save_orders INPUT_FILE orders' (print (Msg result) w2))))))
          else if choice = ''4'' then (Inr (Break, orders, output_orders), w1)
          else (Inr (Continue, orders, output_orders), print (Msg InvalidOption) w1))"

function main_loop :: "order list \<Rightarrow> order list \<Rightarrow> world \<Rightarrow> (error + unit) \<times> world" where
  "main_loop orders output_orders w =
     (case main_iteration orders output_orders w of
        (Inl e, w') \<Rightarrow> (Inl e, w')
      | (Inr (c, orders', output_orders'), w') \<Rightarrow>
          (case c of
             Break \<Rightarrow> (Inr (), w')
           | Continue \<Rightarrow> main_loop orders' output_orders' w'))"
  by pat_completeness auto

text \<open>
  \<open>main\<close> (lines 109 to 145): both files are loaded, then the loop runs.
\<close>

definition main :: "world \<Rightarrow> (error + unit) \<times> world" where
  "main w =
     (case load_data INPUT_FILE w of
        (Inl e, w1) \<Rightarrow> (Inl e, w1)
      | (Inr orders, w1) \<Rightarrow>
          (case load_data OUTPUT_FILE w1 of
             (Inl e, w2) \<Rightarrow> (Inl e, w2)
           | (Inr output_orders, w2) \<Rightarrow> main_loop orders output_orders w2))"

section \<open>Termination\<close>

text \<open>
  The scanner ends on every text: a call returns a text that is no longer than the one it
  was given, and each round of a loop starts behind a delimiter it has read.
\<close>

lemma cons_code_len: "cons_code n x = Some (t, r) \<Longrightarrow> \<exists>t'. x = Some (t', r)"
  by (cases x) (auto simp: cons_code_def)

lemma scanstring_shorter: "scanstring s = Some (t, r) \<Longrightarrow> length r < length s"
proof (induction s arbitrary: t r rule: scanstring.induct)
  case 1
  then show ?case by simp
next
  case (2 c cs)
  show ?case
    using "2.prems" "2.IH"
    apply (simp split: if_splits list.splits option.splits)
    apply (auto dest!: cons_code_len)
    apply force+
    done
qed

lemma skip_ws_le: "length (skip_ws s) \<le> length s"
  by (simp add: skip_ws_def length_dropWhile_le)

lemma scan_fraction_le: "length (snd (scan_fraction r)) \<le> length r"
  by (auto simp: scan_fraction_def split: list.splits intro: le_trans [OF length_dropWhile_le])

lemma scan_exponent_le: "length (snd (scan_exponent r)) \<le> length r"
  by (auto simp: scan_exponent_def Let_def split: list.splits intro: le_trans [OF length_dropWhile_le])

lemma scan_number_le: "scan_number s = Some (v, r) \<Longrightarrow> length r \<le> length s"
proof -
  assume a: "scan_number s = Some (v, r)"
  define s1 where "s1 = (if starts ''-'' s then tl s else s)"
  obtain c cs where s1: "s1 = c # cs" and d: "is_digit c"
    using a by (auto simp: scan_number_def Let_def s1_def split: list.splits if_splits)
  define ds where "ds = (if c = CHR ''0'' then [c] else takeWhile is_digit s1)"
  have r: "r = snd (scan_exponent (snd (scan_fraction (drop (length ds) s1))))"
    using a s1 d by (auto simp: scan_number_def Let_def s1_def ds_def split: list.splits if_splits prod.splits)
  have "length r \<le> length s1"
    unfolding r
    by (rule le_trans [OF scan_exponent_le], rule le_trans [OF scan_fraction_le]) simp
  also have "length s1 \<le> length s" by (simp add: s1_def)
  finally show ?thesis .
qed

lemma skip_ws_Cons: "skip_ws s = c # r \<Longrightarrow> length r < length s"
  using skip_ws_le [of s] by simp

lemma scan_le: "scan_dom (m, s) \<Longrightarrow> scan m s = Some (v, r) \<Longrightarrow> length r \<le> length s"
proof (induction m s arbitrary: v r rule: scan.pinduct)
  case (1 s)
  note eq = "1.prems" [unfolded scan.psimps(1) [OF "1.hyps"]]
  show ?case
  proof (cases s)
    case Nil
    with eq show ?thesis by simp
  next
    case (Cons c cs)
    consider (str) "c = CHR 0x22" | (obj) "c = CHR ''{''" | (arr) "c = CHR ''[''"
      | (other) "c \<noteq> CHR 0x22" "c \<noteq> CHR ''{''" "c \<noteq> CHR ''[''"
      by blast
    then show ?thesis
    proof cases
      case str
      with eq Cons show ?thesis
        by (auto split: option.splits dest!: scanstring_shorter)
    next
      case obj
      show ?thesis
      proof (cases "skip_ws cs")
        case Nil
        with eq Cons obj show ?thesis by simp
      next
        case (Cons d ds)
        note sk = skip_ws_Cons [OF Cons]
        show ?thesis
        proof (cases "d = CHR 0x22")
          case True
          with eq \<open>s = c # cs\<close> obj Cons have "scan (ObjectLoop []) ds = Some (v, r)" by simp
          from "1.IH"(1) [OF \<open>s = c # cs\<close> _ _ Cons _ this] obj True
          have "length r \<le> length ds" by simp
          with sk \<open>s = c # cs\<close> show ?thesis by simp
        next
          case False
          with eq \<open>s = c # cs\<close> obj Cons sk show ?thesis
            by (auto split: if_splits)
        qed
      qed
    next
      case arr
      show ?thesis
      proof (cases "skip_ws cs")
        case Nil
        with eq Cons arr show ?thesis by simp
      next
        case (Cons d ds)
        note sk = skip_ws_Cons [OF Cons]
        show ?thesis
        proof (cases "d = CHR '']''")
          case True
          with eq \<open>s = c # cs\<close> arr Cons sk show ?thesis by auto
        next
          case False
          with eq \<open>s = c # cs\<close> arr Cons have "scan (ArrayLoop []) (d # ds) = Some (v, r)" by simp
          from "1.IH"(2) [OF \<open>s = c # cs\<close> _ _ _ Cons False this] arr
          have "length r \<le> length (d # ds)" by simp
          with sk \<open>s = c # cs\<close> show ?thesis by simp
        qed
      qed
    next
      case other
      with eq Cons show ?thesis
        by (auto simp: starts_def split: if_splits option.splits dest!: scan_number_le)
    qed
  qed
next
  case (2 vs s)
  note eq = "2.prems" [unfolded scan.psimps(2) [OF "2.hyps"]]
  from eq obtain v' r' where a: "scan ScanOnce s = Some (v', r')"
    by (auto split: option.splits)
  have le1: "length r' \<le> length s" by (rule "2.IH"(1) [OF a])
  from eq a obtain c r1 where b: "skip_ws r' = c # r1"
    by (auto split: list.splits)
  note sk = skip_ws_Cons [OF b]
  from eq a b consider (close) "r = r1"
    | (comma) "c \<noteq> CHR '']''" "c = CHR '',''" "scan (ArrayLoop (vs @ [v'])) (skip_ws r1) = Some (v, r)"
    by (auto split: if_splits)
  then show ?case
  proof cases
    case close
    with sk le1 show ?thesis by simp
  next
    case comma
    have "length r \<le> length (skip_ws r1)"
      by (rule "2.IH"(2) [OF a refl b comma])
    with skip_ws_le [of r1] sk le1 show ?thesis by simp
  qed
next
  case (3 pairs s)
  note eq = "3.prems" [unfolded scan.psimps(3) [OF "3.hyps"]]
  from eq obtain key r0 where a: "scanstring s = Some (key, r0)"
    by (auto split: option.splits)
  note l0 = scanstring_shorter [OF a]
  from eq a obtain c r1 where b: "skip_ws r0 = c # r1" and c: "c = CHR '':''"
    by (auto split: list.splits if_splits)
  note l1 = skip_ws_Cons [OF b]
  from eq a b c obtain v' r2 where d: "scan ScanOnce (skip_ws r1) = Some (v', r2)"
    by (auto split: option.splits)
  have l2: "length r2 \<le> length (skip_ws r1)"
    by (rule "3.IH"(1) [OF a refl b _ d]) (simp add: c)
  from eq a b c d obtain e r3 where e: "skip_ws r2 = e # r3"
    by (auto split: list.splits)
  note l3 = skip_ws_Cons [OF e]
  from eq a b c d e consider (close) "r = r3"
    | (comma) q r4 where "e \<noteq> CHR ''}''" "e = CHR '',''" "skip_ws r3 = q # r4" "q = CHR 0x22"
        "scan (ObjectLoop (pairs @ [(key, v')])) r4 = Some (v, r)"
    by (auto split: if_splits list.splits)
  then show ?case
  proof cases
    case close
    with l0 l1 l2 l3 skip_ws_le [of r1] show ?thesis by simp
  next
    case comma
    have "length r \<le> length r4"
      by (rule "3.IH"(2) [OF a refl b _ d refl e comma(1,2,3,4,5)]) (simp add: c)
    with skip_ws_Cons [OF comma(3)] l0 l1 l2 l3 skip_ws_le [of r1] show ?thesis by simp
  qed
qed

termination scan
proof (relation "measure (\<lambda>(m, s). 2 * length s + (case m of ScanOnce \<Rightarrow> 0 | _ \<Rightarrow> 1))", goal_cases)
  case 1
  show ?case by simp
next
  case (2 s c cs d ds)
  then show ?case using skip_ws_Cons [of cs d ds] by simp
next
  case (3 s c cs d ds)
  then show ?case using skip_ws_Cons [of cs d ds] by simp
next
  case (4 vs s)
  show ?case by simp
next
  case (5 vs s x v r c r1)
  then show ?case
    using scan_le [of ScanOnce s v r] skip_ws_Cons [of r c r1] skip_ws_le [of r1] by simp
next
  case (6 pairs s x key r c r1)
  then show ?case
    using scanstring_shorter [of s key r] skip_ws_Cons [of r c r1] skip_ws_le [of r1] by simp
next
  case (7 pairs s x key r c r1 y v r2 d r3 q r4)
  then show ?case
    using scanstring_shorter [of s key r] skip_ws_Cons [of r c r1] skip_ws_le [of r1]
      scan_le [of ScanOnce "skip_ws r1" v r2] skip_ws_Cons [of r2 d r3] skip_ws_Cons [of r3 q r4]
    by simp
qed

declare scan.simps [simp del]

text \<open>
  Every round that goes on has read the line of the menu choice, and no call gives lines
  back to standard input; so the loop ends on every input, by leaving the loop or by the
  EOFError of \<open>input\<close> when the lines run out.
\<close>

lemma stdin_print [simp]: "stdin (print x w) = stdin w"
  by (simp add: print_def)

lemma stdin_save_orders [simp]: "stdin (save_orders f os w) = stdin w"
  by (simp add: save_orders_def)

lemma stdin_print_order_report [simp]: "stdin (print_order_report os t b w) = stdin w"
  by (simp add: print_order_report_def)

lemma input_stdin: "input p w = (Inr l, w') \<Longrightarrow> stdin w = l # stdin w'"
  by (cases "stdin w") (auto simp: input_def print_def)

lemma input_suffix: "input p w = (res, w') \<Longrightarrow> suffix (stdin w') (stdin w)"
  by (cases "stdin w") (auto simp: input_def print_def suffix_ConsI)

lemma read_items_stdin:
  "read_items its w = (res, w') \<Longrightarrow> suffix (stdin w') (stdin w)"
proof (induction its w arbitrary: res w' rule: read_items.induct)
  case (1 its w)
  note eq = "1.prems" [unfolded read_items.simps [of its w]]
  obtain x w1 where i1: "input AskItemName w = (x, w1)" by (cases "input AskItemName w")
  note l1 = input_suffix [OF i1]
  show ?case
  proof (cases x)
    case (Inl e)
    with eq i1 l1 show ?thesis by (auto intro: suffix_order.trans)
  next
    case nm: (Inr nm)
    show ?thesis
    proof (cases "nm = []")
      case True
      with eq i1 nm l1 show ?thesis by (auto intro: suffix_order.trans)
    next
      case ne: False
      obtain y w2 where i2: "input AskPrice w1 = (y, w2)" by (cases "input AskPrice w1")
      note l2 = input_suffix [OF i2]
      show ?thesis
      proof (cases y)
        case (Inl e)
        with eq i1 nm ne i2 l1 l2 show ?thesis by (auto intro: suffix_order.trans)
      next
        case s: (Inr s)
        show ?thesis
        proof (cases "py_int s")
          case None
          with eq i1 nm ne i2 s have "read_items its (print (Msg NotInteger) w2) = (res, w')"
            by simp
          from "1.IH"(1) [OF i1 [symmetric] nm ne i2 [symmetric] s None this] l1 l2
          show ?thesis by (auto intro: suffix_order.trans)
        next
          case p: (Some p)
          show ?thesis
          proof (cases "p < 0")
            case True
            with eq i1 nm ne i2 s p have "read_items its (print (Msg NegativePrice) w2) = (res, w')"
              by simp
            from "1.IH"(2) [OF i1 [symmetric] nm ne i2 [symmetric] s p True this] l1 l2
            show ?thesis by (auto intro: suffix_order.trans)
          next
            case nonneg: False
            obtain z w3 where i3: "input AskQuantity w2 = (z, w3)"
              by (cases "input AskQuantity w2")
            note l3 = input_suffix [OF i3]
            show ?thesis
            proof (cases z)
              case (Inl e)
              with eq i1 nm ne i2 s p nonneg i3 l1 l2 l3 show ?thesis by (auto intro: suffix_order.trans)
            next
              case t: (Inr t)
              show ?thesis
              proof (cases "py_int t")
                case None
                with eq i1 nm ne i2 s p nonneg i3 t
                have "read_items its (print (Msg NotInteger) w3) = (res, w')" by simp
                from "1.IH"(3) [OF i1 [symmetric] nm ne i2 [symmetric] s p nonneg
                    i3 [symmetric] t None this] l1 l2 l3
                show ?thesis by (auto intro: suffix_order.trans)
              next
                case q: (Some q)
                show ?thesis
                proof (cases "q \<le> 0")
                  case True
                  with eq i1 nm ne i2 s p nonneg i3 t q
                  have "read_items its (print (Msg NonPositiveQuantity) w3) = (res, w')" by simp
                  from "1.IH"(4) [OF i1 [symmetric] nm ne i2 [symmetric] s p nonneg
                      i3 [symmetric] t q True this] l1 l2 l3
                  show ?thesis by (auto intro: suffix_order.trans)
                next
                  case False
                  with eq i1 nm ne i2 s p nonneg i3 t q
                  have "read_items (its @ [\<lparr>name = nm, price = p, quantity = q\<rparr>]) w3 = (res, w')"
                    by simp
                  from "1.IH"(5) [OF i1 [symmetric] nm ne i2 [symmetric] s p nonneg
                      i3 [symmetric] t q False this] l1 l2 l3
                  show ?thesis by (auto intro: suffix_order.trans)
                qed
              qed
            qed
          qed
        qed
      qed
    qed
  qed
qed

lemma add_order_stdin:
  "add_order orders w = (res, w') \<Longrightarrow> suffix (stdin w') (stdin w)"
  unfolding add_order_def
  by (auto simp: Let_def split: prod.splits sum.splits if_splits
      dest!: input_suffix read_items_stdin intro: suffix_order.trans)

lemma process_order_stdin:
  "process_order orders w = (res, w') \<Longrightarrow> suffix (stdin w') (stdin w)"
  unfolding process_order_def
  by (auto simp: Let_def split: prod.splits sum.splits if_splits option.splits
      dest!: input_suffix)

lemma main_iteration_stdin:
  assumes "stdin w = l # rest" and "main_iteration orders output_orders w = (res, w')"
  shows "suffix (stdin w') rest"
  using assms unfolding main_iteration_def
  by (auto simp: Let_def input_def split: prod.splits sum.splits if_splits option.splits
      dest!: add_order_stdin process_order_stdin)

lemma main_iteration_EOF:
  "stdin w = [] \<Longrightarrow> fst (main_iteration orders output_orders w) = Inl EOFError"
  by (simp add: main_iteration_def input_def)

lemma main_iteration_shorter:
  assumes "main_iteration orders output_orders w = (Inr x, w')"
  shows "length (stdin w') < length (stdin w)"
proof (cases "stdin w")
  case Nil
  from main_iteration_EOF [OF this, of orders output_orders] assms show ?thesis by simp
next
  case (Cons l rest)
  from suffix_length_le [OF main_iteration_stdin [OF Cons assms]] Cons show ?thesis by simp
qed

termination main_loop
proof (relation "measure (\<lambda>(orders, output_orders, w). length (stdin w))", goal_cases)
  case 1
  show ?case by simp
next
  case (2 orders output_orders w x w' y c z orders' output_orders')
  then have "main_iteration orders output_orders w = (Inr (Continue, orders', output_orders'), w')"
    by simp
  from main_iteration_shorter [OF this] show ?case by simp
qed

declare main_loop.simps [simp del]

section \<open>Properties of the ledger\<close>

lemma fold_total:
  "fold (\<lambda>item total. total + price item * quantity item) xs a =
   a + (\<Sum>item\<leftarrow>xs. price item * quantity item)"
  by (induction xs arbitrary: a) auto

lemma input_Cons:
  "stdin w = l # rest \<Longrightarrow> input p w = (Inr l, print (Prompt p) (w\<lparr>stdin := rest\<rparr>))"
  by (simp add: input_def)


lemma py_int_50: "py_int ''50'' = Some 50"
  by code_simp

lemma py_int_2: "py_int ''2'' = Some 2"
  by code_simp

lemma add_order_duplicate:
  assumes "stdin w = l # rest" and "\<exists>order\<in>set orders. order_id order = upper l"
  shows "add_order orders w =
         (Inr (DuplicateId (upper l), orders), print (Prompt AskOrderId) (w\<lparr>stdin := rest\<rparr>))"
  using assms by (auto simp: add_order_def input_Cons list_ex_iff)

text \<open>
  Claim C3. The total of an order is the sum, over its items, of price times quantity; for
  the items with price 10 and quantity 2, and price 5 and quantity 3, it is 35.
\<close>

theorem calculate_order_total_sum:
  "calculate_order_total order = (\<Sum>item\<leftarrow>items order. price item * quantity item) \<and>
   calculate_order_total
     \<lparr>order_id = i, customer = c,
      items = [\<lparr>name = n1, price = 10, quantity = 2\<rparr>, \<lparr>name = n2, price = 5, quantity = 3\<rparr>]\<rparr> = 35"
  by (simp add: calculate_order_total_def fold_total)

text \<open>
  Claim C10. For an order without items \<open>calculate_order_total\<close> is defined and returns 0.
\<close>

theorem calculate_order_total_empty:
  "items order = [] \<Longrightarrow> calculate_order_total order = 0"
  by (simp add: calculate_order_total_def)

theorem calculate_order_total_empty_witness:
  "items \<lparr>order_id = ''A1'', customer = ''Alice'', items = []\<rparr> = [] \<and>
   calculate_order_total \<lparr>order_id = ''A1'', customer = ''Alice'', items = []\<rparr> = 0"
  using calculate_order_total_empty [of "\<lparr>order_id = ''A1'', customer = ''Alice'', items = []\<rparr>"]
  by simp



text \<open>
  The comparison is therefore without regard to case against the pending orders whose
  stored id is in upper case already, as is every id that \<open>add_order\<close> has stored.
\<close>

lemma add_order_rejects_normalised:
  assumes "stdin w = l # rest"
    and "\<forall>order\<in>set orders. upper (order_id order) = order_id order"
    and "\<exists>order\<in>set orders. upper (order_id order) = upper l"
  shows "add_order orders w =
         (Inr (DuplicateId (upper l), orders), print (Prompt AskOrderId) (w\<lparr>stdin := rest\<rparr>))"
  using assms by (intro add_order_duplicate) auto


lemma process_order_read:
  assumes "orders \<noteq> []" and "stdin w = choice # rest"
  shows "process_order orders w =
    (Inr (if choice = [] then (Cancelled, None, orders)
          else case py_int choice of
                 None \<Rightarrow> (InvalidNumber, None, orders)
               | Some n \<Rightarrow>
                   if 1 \<le> n \<and> n \<le> int (length orders)
                   then (Fulfilled (order_id (orders ! nat (n - 1))), Some (orders ! nat (n - 1)),
                         take (nat (n - 1)) orders @ drop (Suc (nat (n - 1))) orders)
                   else (InvalidNumber, None, orders)),
     w\<lparr>stdin := rest,
       stdout := stdout w @ [PendingHeader] @ pending_rows orders @ [PendingFooter, Prompt AskSelection]\<rparr>)"
  using assms
  by (auto simp: process_order_def input_def print_def pop_def Let_def split: option.splits)


lemma py_int_Nil: "py_int [] = None"
  by (simp add: py_int_def strip_def)



lemma py_int_1: "py_int ''1'' = Some 1"
  by code_simp


lemma py_int_0: "py_int ''0'' = Some 0"
  by code_simp

lemma py_int_minus_1: "py_int ''-1'' = Some (- 1)"
  by code_simp







text \<open>
  Claim C9. With pending orders and a selection that \<open>int\<close> reads as zero or less, the call
  returns the invalid-number sentence and the pending list as it was: the test of line 101
  keeps a negative index from \<open>pop\<close>.
\<close>

theorem process_order_nonpositive:
  assumes "orders \<noteq> []" and "stdin w = choice # rest" and "py_int choice = Some n" and "n \<le> 0"
  shows "fst (process_order orders w) = Inr (InvalidNumber, None, orders)"
  using process_order_read [OF assms(1,2)] assms(3,4) py_int_Nil
  by auto

theorem process_order_nonpositive_witness:
  "py_int ''0'' = Some 0 \<and> (0::int) \<le> 0 \<and>
   fst (process_order
          [\<lparr>order_id = ''A1'', customer = ''Alice'', items = []\<rparr>,
           \<lparr>order_id = ''B2'', customer = ''Bob'', items = []\<rparr>]
          \<lparr>files = Map.empty, stdin = [''0''], stdout = []\<rparr>) =
     Inr (InvalidNumber, None,
          [\<lparr>order_id = ''A1'', customer = ''Alice'', items = []\<rparr>,
           \<lparr>order_id = ''B2'', customer = ''Bob'', items = []\<rparr>]) \<and>
   py_int ''-1'' = Some (- 1) \<and> (- 1::int) \<le> 0 \<and>
   fst (process_order
          [\<lparr>order_id = ''A1'', customer = ''Alice'', items = []\<rparr>,
           \<lparr>order_id = ''B2'', customer = ''Bob'', items = []\<rparr>]
          \<lparr>files = Map.empty, stdin = [''-1''], stdout = []\<rparr>) =
     Inr (InvalidNumber, None,
          [\<lparr>order_id = ''A1'', customer = ''Alice'', items = []\<rparr>,
           \<lparr>order_id = ''B2'', customer = ''Bob'', items = []\<rparr>])"
  using
    process_order_nonpositive
      [where orders = "[\<lparr>order_id = ''A1'', customer = ''Alice'', items = []\<rparr>,
                        \<lparr>order_id = ''B2'', customer = ''Bob'', items = []\<rparr>]"
         and w = "\<lparr>files = Map.empty, stdin = [''0''], stdout = []\<rparr>"
         and choice = "''0''" and rest = "[]" and n = 0]
    process_order_nonpositive
      [where orders = "[\<lparr>order_id = ''A1'', customer = ''Alice'', items = []\<rparr>,
                        \<lparr>order_id = ''B2'', customer = ''Bob'', items = []\<rparr>]"
         and w = "\<lparr>files = Map.empty, stdin = [''-1''], stdout = []\<rparr>"
         and choice = "''-1''" and rest = "[]" and n = "- 1"]
  by (simp add: py_int_0 py_int_minus_1)

text \<open>
  Without the test the index \<open>-1\<close>, which the selection 0 gives, would take out the last
  order.
\<close>

lemma pop_minus_one:
  assumes "xs \<noteq> []"
  shows "pop xs (- 1) = Inr (last xs, butlast xs)"
proof -
  from assms obtain ys y where xs: "xs = ys @ [y]" by (cases xs rule: rev_cases) auto
  have "nat (- 1 + int (length xs)) = length ys" by (simp add: xs)
  then show ?thesis by (simp add: pop_def Let_def xs)
qed

lemma add_order_result:
  assumes "add_order orders w = (Inr (m, orders'), w')"
  shows "orders' = orders \<or>
         (\<exists>new. orders' = orders @ [new] \<and> order_id new \<notin> order_id ` set orders)"
  using assms unfolding add_order_def
  by (fastforce simp: Let_def list_ex_iff split: prod.splits sum.splits if_splits)

lemma process_order_result:
  assumes "process_order orders w = (Inr (m, taken, orders'), w')"
  shows "orders' = orders \<or> (\<exists>i. orders' = take i orders @ drop (Suc i) orders)"
  using assms unfolding process_order_def
  by (auto simp: Let_def pop_def split: prod.splits sum.splits if_splits option.splits)

lemma distinct_without_nth:
  fixes f :: "'a \<Rightarrow> 'b"
  assumes "distinct (map f xs)"
  shows "distinct (map f (take i xs @ drop (Suc i) xs))"
proof -
  have m: "map f (take i xs @ drop (Suc i) xs) = take i (map f xs) @ drop (Suc i) (map f xs)"
    by (simp add: take_map drop_map)
  have d: "distinct (take i ys @ drop (Suc i) ys)" if "distinct ys" for ys :: "'b list"
    using that set_take_disj_set_drop_if_distinct [of ys i "Suc i"] by simp
  show ?thesis unfolding m by (rule d [OF assms])
qed

text \<open>
  Claim C7. When the ids of the pending orders are pairwise distinct, they still are after
  a call of \<open>add_order\<close> and after a call of \<open>process_order\<close>, whatever is read.
\<close>

theorem distinct_ids_preserved:
  assumes "distinct (map order_id orders)"
  shows "(add_order orders wa = (Inr (m, added), wa') \<longrightarrow> distinct (map order_id added)) \<and>
         (process_order orders wp = (Inr (m', taken, left), wp') \<longrightarrow> distinct (map order_id left))"
proof (intro conjI impI)
  assume "add_order orders wa = (Inr (m, added), wa')"
  from add_order_result [OF this] assms show "distinct (map order_id added)" by auto
next
  assume "process_order orders wp = (Inr (m', taken, left), wp')"
  from process_order_result [OF this] assms distinct_without_nth [of order_id orders]
  show "distinct (map order_id left)" by auto
qed

lemma upper_b2: "upper ''b2'' = ''B2''"
  by code_simp

theorem distinct_ids_preserved_witness:
  "distinct (map order_id [\<lparr>order_id = ''A1'', customer = ''Alice'', items = [\<lparr>name = ''Tea'', price = 50, quantity = 2\<rparr>]\<rparr>]) \<and>
   add_order [\<lparr>order_id = ''A1'', customer = ''Alice'', items = [\<lparr>name = ''Tea'', price = 50, quantity = 2\<rparr>]\<rparr>]
     \<lparr>files = Map.empty, stdin = [''b2'', ''Bob'', ''Tea'', ''50'', ''2'', ''''], stdout = []\<rparr> =
   (Inr (Added ''B2'',
         [\<lparr>order_id = ''A1'', customer = ''Alice'', items = [\<lparr>name = ''Tea'', price = 50, quantity = 2\<rparr>]\<rparr>,
          \<lparr>order_id = ''B2'', customer = ''Bob'', items = [\<lparr>name = ''Tea'', price = 50, quantity = 2\<rparr>]\<rparr>]),
    \<lparr>files = Map.empty, stdin = [],
       stdout = [Prompt AskOrderId, Prompt AskCustomer, Prompt AskItemName, Prompt AskPrice,
                 Prompt AskQuantity, Prompt AskItemName]\<rparr>) \<and>
   distinct (map order_id
         [\<lparr>order_id = ''A1'', customer = ''Alice'', items = [\<lparr>name = ''Tea'', price = 50, quantity = 2\<rparr>]\<rparr>,
          \<lparr>order_id = ''B2'', customer = ''Bob'', items = [\<lparr>name = ''Tea'', price = 50, quantity = 2\<rparr>]\<rparr>]) \<and>
   process_order [\<lparr>order_id = ''A1'', customer = ''Alice'', items = [\<lparr>name = ''Tea'', price = 50, quantity = 2\<rparr>]\<rparr>]
     \<lparr>files = Map.empty, stdin = [''1''], stdout = []\<rparr> =
   (Inr (Fulfilled ''A1'',
         Some \<lparr>order_id = ''A1'', customer = ''Alice'', items = [\<lparr>name = ''Tea'', price = 50, quantity = 2\<rparr>]\<rparr>,
         []),
    \<lparr>files = Map.empty, stdin = [],
       stdout = [PendingHeader, PendingRow 1 ''A1'' ''Alice'', PendingFooter, Prompt AskSelection]\<rparr>) \<and>
   distinct (map order_id ([] :: order list))"
  using distinct_ids_preserved
    [where orders = "[\<lparr>order_id = ''A1'', customer = ''Alice'', items = [\<lparr>name = ''Tea'', price = 50, quantity = 2\<rparr>]\<rparr>]"
       and wa = "\<lparr>files = Map.empty, stdin = [''b2'', ''Bob'', ''Tea'', ''50'', ''2'', ''''], stdout = []\<rparr>"
       and m = "Added ''B2''"
       and added = "[\<lparr>order_id = ''A1'', customer = ''Alice'', items = [\<lparr>name = ''Tea'', price = 50, quantity = 2\<rparr>]\<rparr>,
          \<lparr>order_id = ''B2'', customer = ''Bob'', items = [\<lparr>name = ''Tea'', price = 50, quantity = 2\<rparr>]\<rparr>]"
       and wa' = "\<lparr>files = Map.empty, stdin = [],
                   stdout = [Prompt AskOrderId, Prompt AskCustomer, Prompt AskItemName, Prompt AskPrice,
                             Prompt AskQuantity, Prompt AskItemName]\<rparr>"
       and wp = "\<lparr>files = Map.empty, stdin = [''1''], stdout = []\<rparr>"
       and m' = "Fulfilled ''A1''"
       and taken = "Some \<lparr>order_id = ''A1'', customer = ''Alice'', items = [\<lparr>name = ''Tea'', price = 50, quantity = 2\<rparr>]\<rparr>"
       and left = "[]"
       and wp' = "\<lparr>files = Map.empty, stdin = [],
                    stdout = [PendingHeader, PendingRow 1 ''A1'' ''Alice'', PendingFooter, Prompt AskSelection]\<rparr>"]
  by (simp add: add_order_def read_items.simps input_def print_def upper_b2 py_int_50 py_int_2 Let_def
      process_order_def py_int_1 pop_def pending_rows_def)

section \<open>Properties of the store\<close>

text \<open>
  Claim C6. \<open>load_data\<close> on a file that does not exist returns the empty list and raises
  nothing.
\<close>

theorem load_data_missing_file:
  "files w filename = None \<Longrightarrow> load_data filename w = (Inr [], w)"
  by (simp add: load_data_def)

theorem load_data_missing_file_witness:
  "files \<lparr>files = Map.empty, stdin = [], stdout = []\<rparr> INPUT_FILE = None \<and>
   load_data INPUT_FILE \<lparr>files = Map.empty, stdin = [], stdout = []\<rparr> =
     (Inr [], \<lparr>files = Map.empty, stdin = [], stdout = []\<rparr>)"
  using load_data_missing_file
    [where w = "\<lparr>files = Map.empty, stdin = [], stdout = []\<rparr>" and filename = INPUT_FILE]
  by simp

subsection \<open>What is written is read back\<close>


lemma code_point_char_of: "n < 256 \<Longrightarrow> code_point (char_of n) = n"
  by (simp add: code_point_def)




text \<open>
  It reads a written integer back, when a comma or a line break follows, as it does in
  every document that \<open>dumps\<close> writes.
\<close>

lemma is_digit_char_of: "k < 10 \<Longrightarrow> is_digit (char_of (48 + k :: nat))"
  by (simp add: is_digit_def code_point_char_of)


lemma digits_all: "list_all is_digit (digits n)"
proof (induction n rule: digits.induct)
  case (1 n)
  show ?case
  proof (cases "n < 10")
    case True
    then show ?thesis by (simp add: digits.simps [of n] is_digit_char_of)
  next
    case False
    with "1.IH" show ?thesis by (simp add: digits.simps [of n] is_digit_char_of)
  qed
qed






lemma takeWhile_digits:
  assumes "\<not> is_digit c"
  shows "takeWhile is_digit (digits n @ c # r) = digits n"
  using assms digits_all [of n] by (simp add: takeWhile_append2 list_all_iff)



































section \<open>Properties of the menu loop\<close>









end
